theory Spec2Isabelle
  imports Complex_Main "HOL-Library.Word" "HOL-Library.Sublist"
begin

section \<open>The somatic indel VCF writer of Strelka\<close>

text \<open>
  A shallow embedding of \<^verbatim>\<open>src/c++/lib/applications/strelka/SomaticIndelVcfWriter.cpp\<close>:
  the statistical annotations (\<^verbatim>\<open>safeFrac\<close>, \<^verbatim>\<open>calculateIndelAF\<close>,
  \<^verbatim>\<open>calculateSOR\<close>, \<^verbatim>\<open>calculateFS\<close>), the record formatter
  (\<^verbatim>\<open>write_vcf_isri_tiers\<close>, \<^verbatim>\<open>writeSomaticIndelVcfGrid\<close>) and the
  per-position buffer (\<^verbatim>\<open>cacheIndel\<close>, \<^verbatim>\<open>addIndelWindowData\<close>).

  Conventions of the model.
  \<^item> \<^verbatim>\<open>unsigned\<close> is a 32-bit word: \<open>+\<close> and \<open>*\<close> wrap around. A conversion of an
    \<^verbatim>\<open>unsigned\<close> to \<^verbatim>\<open>int\<close> reads the same 32 bits as two's complement (\<open>sint\<close>).
  \<^item> A \<^verbatim>\<open>double\<close> or \<^verbatim>\<open>float\<close> is the real number it stands for, or one of the special
    values; arithmetic on finite values is exact in the model. Where the source stores the
    result of \<^verbatim>\<open>safeFrac\<close> in a \<^verbatim>\<open>const float\<close> and compares it, the conversion is the
    parameter \<open>to_float\<close> of the model.
  \<^item> Signed overflow and a float-to-int conversion out of the range of \<^verbatim>\<open>int\<close> are undefined
    behaviour in C++; the model computes in the mathematical integers there.
  \<^item> The output stream is the list of the items written to it, one per \<^verbatim>\<open><<\<close>, each
    floating-point item tagged with the stream's format flags at the time of writing.
\<close>

subsection \<open>Numbers\<close>

text \<open>
  Modelled from the spec: \<^verbatim>\<open>pos_t\<close> is declared in a header that is not under src/: an
  integer genomic position. It is the key of the buffer, and \<^verbatim>\<open>pos+1\<close> is written to the
  record; the model takes the mathematical integers for it.
\<close>

type_synonym pos_t = int
type_synonym u32 = "32 word"

datatype double = Finite real | PosInf | NegInf | NaN

text \<open>\<^verbatim>\<open>log10\<close> of the C library on a finite argument: minus infinity at zero, not a number
  below zero.\<close>

definition log10 :: "real \<Rightarrow> double" where
  "log10 x = (if 0 < x then Finite (log 10 x) else if x = 0 then NegInf else NaN)"

text \<open>Conversion of a \<^verbatim>\<open>float\<close> to \<^verbatim>\<open>int\<close>: truncation towards zero.\<close>

definition float_to_int :: "real \<Rightarrow> int" where
  "float_to_int x = (if 0 \<le> x then \<lfloor>x\<rfloor> else \<lceil>x\<rceil>)"

subsection \<open>Read evidence\<close>

text \<open>
  Modelled from the spec: \<^verbatim>\<open>starling_indel_sample_report_info\<close> is declared in a header that
  is not under src/. The fields are the ones the source reads; the counts are \<^verbatim>\<open>unsigned\<close>
  (the source binds \<^verbatim>\<open>depth\<close> to a \<^verbatim>\<open>const unsigned&\<close> and multiplies the strand counts
  into an \<^verbatim>\<open>unsigned int\<close>). \<open>readpos_ranksum_u_stat\<close> is the value of
  \<^verbatim>\<open>readpos_ranksum.get_u_stat()\<close>.
\<close>

record starling_indel_sample_report_info =
  n_q30_ref_reads :: u32
  n_q30_indel_reads :: u32
  n_q30_alt_reads :: u32
  n_other_reads :: u32
  depth :: u32
  n_q30_ref_reads_fwd :: u32
  n_q30_indel_reads_fwd :: u32
  n_q30_ref_reads_rev :: u32
  n_q30_indel_reads_rev :: u32
  readpos_ranksum_u_stat :: double
  mean_mapq :: double
  mapq0_frac :: double

subsection \<open>Statistical annotations\<close>

definition safeFrac :: "int \<Rightarrow> int \<Rightarrow> real" where
  "safeFrac num denom = (if denom > 0 then real_of_int num / real_of_int denom else 0)"

text \<open>The \<^verbatim>\<open>unsigned\<close> arguments are converted to the \<^verbatim>\<open>int\<close> parameters of
  \<^verbatim>\<open>safeFrac\<close>; the sum is computed in \<^verbatim>\<open>unsigned\<close> first.\<close>

definition calculateIndelAF :: "starling_indel_sample_report_info \<Rightarrow> real" where
  "calculateIndelAF isri =
     safeFrac (sint (n_q30_indel_reads isri))
              (sint (n_q30_ref_reads isri + n_q30_alt_reads isri + n_q30_indel_reads isri))"

definition calculateSOR :: "starling_indel_sample_report_info \<Rightarrow> double" where
  "calculateSOR isri =
     (let num = n_q30_ref_reads_fwd isri * n_q30_indel_reads_rev isri;
          denom = n_q30_ref_reads_rev isri * n_q30_indel_reads_fwd isri
      in if denom = 0 then PosInf
         else log10 (real (unat num) / real (unat denom)))"

text \<open>
  Modelled from the spec: \<^verbatim>\<open>fisher_exact_test_pval_2x2\<close> and \<^verbatim>\<open>error_prob_to_phred\<close> are
  defined in \<^verbatim>\<open>blt_util\<close>, which is not under src/ (a two-sided Fisher exact test on the 2x2
  table, and the conversion of its p-value to a phred score). They are parameters of the
  model.

  The third parameter, \<open>to_float\<close>, is the conversion in
  \<^verbatim>\<open>const float normalWinFrac(safeFrac(...))\<close>: the \<^verbatim>\<open>float\<close> that the \<^verbatim>\<open>double\<close> returned by
  \<^verbatim>\<open>safeFrac\<close> is narrowed to. As \<open>safeFrac\<close> of the model returns the exact quotient,
  \<open>to_float\<close> maps the exact quotient to that \<^verbatim>\<open>float\<close>: the rounding of the division to
  double precision, then the narrowing to single precision.
\<close>

record externs =
  fisher_exact_test_pval_2x2 :: "u32 \<Rightarrow> u32 \<Rightarrow> u32 \<Rightarrow> u32 \<Rightarrow> double"
  error_prob_to_phred :: "double \<Rightarrow> double"
  to_float :: "real \<Rightarrow> real"

definition calculateFS :: "externs \<Rightarrow> starling_indel_sample_report_info \<Rightarrow> double" where
  "calculateFS X isri =
     error_prob_to_phred X
       (fisher_exact_test_pval_2x2 X (n_q30_ref_reads_fwd isri) (n_q30_indel_reads_fwd isri)
                                     (n_q30_ref_reads_rev isri) (n_q30_indel_reads_rev isri))"

subsection \<open>Candidates, options and window averages\<close>

text \<open>
  Modelled from the spec: the types below are declared in headers that are not under src/.
  Each record has the fields the source reads, with the names the source uses.
  \<open>is_repeat_unit\<close> and \<open>is_max_depth\<close> are the results of the methods of these names, whose
  bodies are in those headers; the three fields of \<open>win_avg_set\<close> are the values of
  \<^verbatim>\<open>ss_used_win.avg()\<close>, \<^verbatim>\<open>ss_filt_win.avg()\<close> and \<^verbatim>\<open>ss_submap_win.avg()\<close>. Of the
  enumerations, the source names \<open>REF\<close>, \<open>BP_LEFT\<close>, \<open>BP_RIGHT\<close> and the three filters.
\<close>

datatype NTYPE = REF | HET | HOM | CONFLICT

datatype INDEL = NONE | INSERT | DELETE | BP_LEFT | BP_RIGHT | SWAP

datatype STRELKA_VCF_FILTERS = HighDepth | IndelBCNoise | QSI_ref

record win_avg_set =
  ss_used_win :: real
  ss_filt_win :: real
  ss_submap_win :: real

record starling_indel_report_info =
  vcf_ref_seq :: string
  vcf_indel_seq :: string
  is_repeat_unit :: bool
  repeat_unit :: string
  ref_repeat_count :: u32
  indel_repeat_count :: u32
  ihpol :: u32
  it :: INDEL

record result_set =
  ntype :: NTYPE
  sindel_qphred :: int
  sindel_from_ntype_qphred :: int
  max_gt :: u32
  is_overlap :: bool

record somatic_indel_call =
  rs :: result_set
  sindel_tier :: u32
  sindel_from_ntype_tier :: u32

text \<open>The arrays \<^verbatim>\<open>nisri[2]\<close> and \<^verbatim>\<open>tisri[2]\<close> are pairs: tier 1 first.\<close>

record SomaticIndelVcfInfo =
  sindel :: somatic_indel_call
  iri :: starling_indel_report_info
  nisri :: "starling_indel_sample_report_info \<times> starling_indel_sample_report_info"
  tisri :: "starling_indel_sample_report_info \<times> starling_indel_sample_report_info"

record somatic_filter_options =
  indelMaxWindowFilteredBasecallFrac :: real
  sindelQuality_LowerBound :: int

record strelka_options =
  bam_seq_name :: string
  sfilter :: somatic_filter_options

record somatic_filter_deriv_options =
  is_max_depth :: bool
  max_depth :: real

record strelka_deriv_options =
  dsfilter :: somatic_filter_deriv_options

subsection \<open>The output stream\<close>

text \<open>
  One item per \<^verbatim>\<open><<\<close>, by the type of the operand: a character, a string literal of the
  source, a \<^verbatim>\<open>std::string\<close>, an unsigned or signed integer, a floating-point value with the
  format it was written under. \<open>TFilters\<close> is what \<^verbatim>\<open>smod.write_filters(os)\<close> writes for a
  set of filters and \<open>TLabel\<close> what \<^verbatim>\<open>NTYPE::label\<close> returns: both are defined in headers
  that are not under src/.
\<close>

datatype floatfield = DefaultFloat | Fixed | Scientific

datatype token =
    TChar char
  | TLit string
  | TStr string
  | TUns nat
  | TInt int
  | TFlt floatfield nat double
  | TFilters "STRELKA_VCF_FILTERS set"
  | TLabel NTYPE

record ostream =
  written :: "token list"
  floatfield :: floatfield
  precision :: nat

definition put :: "token \<Rightarrow> ostream \<Rightarrow> ostream" where
  "put t os = os\<lparr>written := written os @ [t]\<rparr>"

definition put_flt :: "double \<Rightarrow> ostream \<Rightarrow> ostream" where
  "put_flt d os = put (TFlt (floatfield os) (precision os) d) os"

definition put_uns :: "u32 \<Rightarrow> ostream \<Rightarrow> ostream" where
  "put_uns w os = put (TUns (unat w)) os"

definition fixed :: "ostream \<Rightarrow> ostream" where
  "fixed os = os\<lparr>floatfield := Fixed\<rparr>"

definition setprecision :: "nat \<Rightarrow> ostream \<Rightarrow> ostream" where
  "setprecision n os = os\<lparr>precision := n\<rparr>"

text \<open>A chain \<^verbatim>\<open>os << a << b\<close>: the writes in the order of the source.\<close>

definition chain :: "(ostream \<Rightarrow> ostream) list \<Rightarrow> ostream \<Rightarrow> ostream" where
  "chain ws os = fold (\<lambda>w. w) ws os"

text \<open>
  Modelled from the spec: \<^verbatim>\<open>StreamScoper\<close> is declared in \<^verbatim>\<open>blt_util/io_util.hh\<close>, which is
  not under src/. It saves the format of the stream where it is constructed and restores
  it at the end of the scope.
\<close>

definition StreamScoper :: "ostream \<Rightarrow> floatfield \<times> nat" where
  "StreamScoper os = (floatfield os, precision os)"

definition StreamScoper_restore :: "floatfield \<times> nat \<Rightarrow> ostream \<Rightarrow> ostream" where
  "StreamScoper_restore ss os = os\<lparr>floatfield := fst ss, precision := snd ss\<rparr>"

subsection \<open>The record formatter\<close>

definition write_vcf_isri_tiers ::
  "externs \<Rightarrow> starling_indel_sample_report_info \<Rightarrow> starling_indel_sample_report_info
     \<Rightarrow> win_avg_set \<Rightarrow> ostream \<Rightarrow> ostream" where
  "write_vcf_isri_tiers X isri1 isri2 was os =
     (let sep = CHR '':'';
          os1 = chain
            [put_uns (depth isri1),
             put (TChar sep),
             put_uns (depth isri2),
             put (TChar sep),
             put_uns (n_q30_ref_reads isri1 + n_q30_alt_reads isri1), put (TChar CHR '',''),
             put_uns (n_q30_ref_reads isri2 + n_q30_alt_reads isri2),
             put (TChar sep),
             put_uns (n_q30_indel_reads isri1), put (TChar CHR '',''),
             put_uns (n_q30_indel_reads isri2),
             put (TChar sep),
             put_uns (n_other_reads isri1), put (TChar CHR '',''),
             put_uns (n_other_reads isri2)] os;
          used = ss_used_win was;
          filt = ss_filt_win was;
          submap = ss_submap_win was;
          ss = StreamScoper os1;
          os2 = chain [fixed, setprecision 2] os1;
          os3 = chain
            [put (TChar sep), put_flt (Finite (used + filt)),
             put (TChar sep), put_flt (Finite filt),
             put (TChar sep), put_flt (Finite submap),
             put (TChar sep), put_flt (Finite (calculateIndelAF isri1)), put (TLit '',''),
                              put_flt (Finite (calculateIndelAF isri2)),
             put (TChar sep), put_flt (calculateSOR isri1), put (TLit '',''),
                              put_flt (calculateSOR isri2),
             put (TChar sep), put_flt (calculateFS X isri1), put (TLit '',''),
                              put_flt (calculateFS X isri2),
             put (TChar sep), put_flt (readpos_ranksum_u_stat isri1), put (TLit '',''),
                              put_flt (readpos_ranksum_u_stat isri2),
             put (TChar sep), put_flt (mean_mapq isri1), put (TLit '',''),
                              put_flt (mean_mapq isri2),
             put (TChar sep), put_flt (mapq0_frac isri1), put (TLit '',''),
                              put_flt (mapq0_frac isri2)] os2
      in StreamScoper_restore ss os3)"

text \<open>
  The block of \<^verbatim>\<open>writeSomaticIndelVcfGrid\<close> under ``compute all site filters'': the value
  of \<^verbatim>\<open>smod\<close> at its end. \<^verbatim>\<open>strelka_shared_modifiers\<close> is declared in a header that is not
  under src/; it is the set of the filters passed to \<^verbatim>\<open>set_filter\<close>. The two fractions are
  \<^verbatim>\<open>const float\<close> in the source: the result of \<^verbatim>\<open>safeFrac\<close> is narrowed before it is
  compared with the \<^verbatim>\<open>double\<close> of the options.
\<close>

definition set_filter :: "STRELKA_VCF_FILTERS \<Rightarrow> STRELKA_VCF_FILTERS set \<Rightarrow> STRELKA_VCF_FILTERS set" where
  "set_filter f smod = insert f smod"

definition site_filters ::
  "externs \<Rightarrow> strelka_options \<Rightarrow> strelka_deriv_options \<Rightarrow> SomaticIndelVcfInfo
     \<Rightarrow> win_avg_set \<Rightarrow> win_avg_set \<Rightarrow> STRELKA_VCF_FILTERS set" where
  "site_filters X opt dopt siInfo wasNormal wasTumor =
     (let smod0 = {};
          smod1 =
            (if is_max_depth (dsfilter dopt)
             then (let depth = depth (fst (nisri siInfo))
                   in if real (unat depth) > max_depth (dsfilter dopt)
                      then set_filter HighDepth smod0 else smod0)
             else smod0);
          normalFilt = float_to_int (ss_filt_win wasNormal);
          normalUsed = float_to_int (ss_used_win wasNormal);
          normalWinFrac = to_float X (safeFrac normalFilt (normalFilt + normalUsed));
          tumorFilt = float_to_int (ss_filt_win wasTumor);
          tumorUsed = float_to_int (ss_used_win wasTumor);
          tumorWinFrac = to_float X (safeFrac tumorFilt (tumorFilt + tumorUsed));
          smod2 =
            (if normalWinFrac \<ge> indelMaxWindowFilteredBasecallFrac (sfilter opt) \<or>
                tumorWinFrac \<ge> indelMaxWindowFilteredBasecallFrac (sfilter opt)
             then set_filter IndelBCNoise smod1 else smod1);
          smod3 =
            (if ntype (rs (sindel siInfo)) \<noteq> REF \<or>
                sindel_from_ntype_qphred (rs (sindel siInfo)) < sindelQuality_LowerBound (sfilter opt)
             then set_filter QSI_ref smod2 else smod2)
      in smod3)"

definition writeSomaticIndelVcfGrid ::
  "externs \<Rightarrow> strelka_options \<Rightarrow> strelka_deriv_options \<Rightarrow> pos_t \<Rightarrow> SomaticIndelVcfInfo
     \<Rightarrow> win_avg_set \<Rightarrow> win_avg_set \<Rightarrow> ostream \<Rightarrow> ostream" where
  "writeSomaticIndelVcfGrid X opt dopt pos siInfo wasNormal wasTumor os =
     (let rs = rs (sindel siInfo);
          smod = site_filters X opt dopt siInfo wasNormal wasTumor;
          output_pos = pos + 1;
          sep = CHR 0x09;
          os1 = chain
            [put (TStr (bam_seq_name opt)),
             put (TChar sep), put (TInt output_pos),
             put (TChar sep), put (TLit ''.''),
             put (TChar sep), put (TStr (vcf_ref_seq (iri siInfo))),
             put (TChar sep), put (TStr (vcf_indel_seq (iri siInfo))),
             put (TChar sep), put (TLit ''.''),
             put (TChar sep),
             put (TFilters smod),
             put (TChar sep),
             put (TLit ''SOMATIC''),
             put (TLit '';QSI=''), put (TInt (sindel_qphred rs)),
             put (TLit '';TQSI=''), put_uns (sindel_tier (sindel siInfo) + 1),
             put (TLit '';NT=''), put (TLabel (ntype rs)),
             put (TLit '';QSI_NT=''), put (TInt (sindel_from_ntype_qphred rs)),
             put (TLit '';TQSI_NT=''), put_uns (sindel_from_ntype_tier (sindel siInfo) + 1),
             put (TLit '';SGT=''), put_uns (max_gt rs)] os;
          os2 =
            (if is_repeat_unit (iri siInfo)
             then chain
               [put (TLit '';RU=''), put (TStr (repeat_unit (iri siInfo))),
                put (TLit '';RC=''), put_uns (ref_repeat_count (iri siInfo)),
                put (TLit '';IC=''), put_uns (indel_repeat_count (iri siInfo))] os1
             else os1);
          os3 = chain [put (TLit '';IHP=''), put_uns (ihpol (iri siInfo))] os2;
          os4 =
            (if it (iri siInfo) = BP_LEFT \<or> it (iri siInfo) = BP_RIGHT
             then put (TLit '';SVTYPE=BND'') os3 else os3);
          os5 = (if is_overlap rs then put (TLit '';OVERLAP'') os4 else os4);
          os6 = chain
            [put (TChar sep),
             put (TLit ''DP:DP2:TAR:TIR:TOR:DP50:FDP50:SUBDP50:AF:SOR:FS:RR:MQ:MQ0''),
             put (TChar sep)] os5;
          os7 = write_vcf_isri_tiers X (fst (nisri siInfo)) (snd (nisri siInfo)) wasNormal os6;
          os8 = put (TChar sep) os7;
          os9 = write_vcf_isri_tiers X (fst (tisri siInfo)) (snd (tisri siInfo)) wasTumor os8
      in put (TChar CHR 0x0A) os9)"

subsection \<open>The per-position buffer\<close>

text \<open>
  The members of the class \<^verbatim>\<open>SomaticIndelVcfWriter\<close> (\<^verbatim>\<open>_opt\<close>, \<^verbatim>\<open>_dopt\<close>, \<^verbatim>\<open>_osptr\<close>,
  \<^verbatim>\<open>_data\<close>); \<open>m_osptr\<close> is the stream \<^verbatim>\<open>*_osptr\<close>, and \<open>m_data\<close> the \<^verbatim>\<open>std::map\<close> from a
  position to the vector of its candidates.
\<close>

record SomaticIndelVcfWriter =
  m_opt :: strelka_options
  m_dopt :: strelka_deriv_options
  m_osptr :: ostream
  m_data :: "pos_t \<rightharpoonup> SomaticIndelVcfInfo list"

datatype error = AssertionFailure

text \<open>
  Modelled from the spec: \<^verbatim>\<open>testPos\<close> (the spec's \<open>hasPending\<close>) is defined in
  \<^verbatim>\<open>SomaticIndelVcfWriter.hh\<close>, which is not under src/: the existence check of an entry for
  the position.
\<close>

definition testPos :: "SomaticIndelVcfWriter \<Rightarrow> pos_t \<Rightarrow> bool" where
  "testPos w pos = (m_data w pos \<noteq> None)"

text \<open>\<^verbatim>\<open>_data[pos]\<close>: the vector at the position, empty where the map has no entry yet.\<close>

definition data_at :: "SomaticIndelVcfWriter \<Rightarrow> pos_t \<Rightarrow> SomaticIndelVcfInfo list" where
  "data_at w pos = (case m_data w pos of None \<Rightarrow> [] | Some v \<Rightarrow> v)"

definition cacheIndel :: "pos_t \<Rightarrow> SomaticIndelVcfInfo \<Rightarrow> SomaticIndelVcfWriter \<Rightarrow> SomaticIndelVcfWriter" where
  "cacheIndel pos siInfo w = w\<lparr>m_data := (m_data w)(pos \<mapsto> data_at w pos @ [siInfo])\<rparr>"

text \<open>
  The \<^verbatim>\<open>assert\<close> is a result of its own: with assertions enabled (\<^verbatim>\<open>NDEBUG\<close> not
  defined) the function stops there when the condition fails.
\<close>

definition addIndelWindowData ::
  "externs \<Rightarrow> pos_t \<Rightarrow> win_avg_set \<Rightarrow> win_avg_set \<Rightarrow> SomaticIndelVcfWriter
     \<Rightarrow> error + SomaticIndelVcfWriter" where
  "addIndelWindowData X pos wasNormal wasTumor w =
     (if \<not> testPos w pos then Inl AssertionFailure
      else
        (let os' = fold (\<lambda>indelInfo os.
                      writeSomaticIndelVcfGrid X (m_opt w) (m_dopt w) pos indelInfo wasNormal wasTumor os)
                    (data_at w pos) (m_osptr w)
         in Inr (w\<lparr>m_osptr := os', m_data := (m_data w)(pos := None)\<rparr>)))"

text \<open>A sequence of calls of \<^verbatim>\<open>cacheIndel\<close>, each with its position.\<close>

definition cacheIndels :: "(pos_t \<times> SomaticIndelVcfInfo) list \<Rightarrow> SomaticIndelVcfWriter \<Rightarrow> SomaticIndelVcfWriter" where
  "cacheIndels calls w = fold (\<lambda>c. cacheIndel (fst c) (snd c)) calls w"

subsection \<open>What one call writes\<close>

text \<open>A stream in its initial state: nothing written, the default format, precision 6.\<close>

definition init_stream :: ostream where
  "init_stream = \<lparr>written = [], floatfield = DefaultFloat, precision = 6\<rparr>"

text \<open>The items one call of \<^verbatim>\<open>write_vcf_isri_tiers\<close> and one call of
  \<^verbatim>\<open>writeSomaticIndelVcfGrid\<close> write: a sample column and a record.\<close>

definition sample_column ::
  "externs \<Rightarrow> starling_indel_sample_report_info \<Rightarrow> starling_indel_sample_report_info
     \<Rightarrow> win_avg_set \<Rightarrow> token list" where
  "sample_column X isri1 isri2 was = written (write_vcf_isri_tiers X isri1 isri2 was init_stream)"

definition vcf_record ::
  "externs \<Rightarrow> strelka_options \<Rightarrow> strelka_deriv_options \<Rightarrow> pos_t \<Rightarrow> SomaticIndelVcfInfo
     \<Rightarrow> win_avg_set \<Rightarrow> win_avg_set \<Rightarrow> token list" where
  "vcf_record X opt dopt pos siInfo wasNormal wasTumor =
     written (writeSomaticIndelVcfGrid X opt dopt pos siInfo wasNormal wasTumor init_stream)"

text \<open>The INFO column of a record, and in it the three fields of the repeat unit.\<close>

definition repeat_unit_fields :: "starling_indel_report_info \<Rightarrow> token list" where
  "repeat_unit_fields i =
     [TLit '';RU='', TStr (repeat_unit i),
      TLit '';RC='', TUns (unat (ref_repeat_count i)),
      TLit '';IC='', TUns (unat (indel_repeat_count i))]"

definition info_block :: "SomaticIndelVcfInfo \<Rightarrow> token list" where
  "info_block siInfo =
      [TLit ''SOMATIC'',
       TLit '';QSI='', TInt (sindel_qphred (rs (sindel siInfo))),
       TLit '';TQSI='', TUns (unat (sindel_tier (sindel siInfo) + 1)),
       TLit '';NT='', TLabel (ntype (rs (sindel siInfo))),
       TLit '';QSI_NT='', TInt (sindel_from_ntype_qphred (rs (sindel siInfo))),
       TLit '';TQSI_NT='', TUns (unat (sindel_from_ntype_tier (sindel siInfo) + 1)),
       TLit '';SGT='', TUns (unat (max_gt (rs (sindel siInfo))))]
      @ (if is_repeat_unit (iri siInfo) then repeat_unit_fields (iri siInfo) else [])
      @ [TLit '';IHP='', TUns (unat (ihpol (iri siInfo)))]
      @ (if it (iri siInfo) = BP_LEFT \<or> it (iri siInfo) = BP_RIGHT then [TLit '';SVTYPE=BND''] else [])
      @ (if is_overlap (rs (sindel siInfo)) then [TLit '';OVERLAP''] else [])"

fun is_flt :: "token \<Rightarrow> bool" where
  "is_flt (TFlt ff p d) = True"
| "is_flt t = False"

text \<open>The candidates that a sequence of calls of \<^verbatim>\<open>cacheIndel\<close> caches at one position, in
  the order of the calls.\<close>

definition cachedAt :: "pos_t \<Rightarrow> (pos_t \<times> SomaticIndelVcfInfo) list \<Rightarrow> SomaticIndelVcfInfo list" where
  "cachedAt pos calls = map snd (filter (\<lambda>c. fst c = pos) calls)"

subsection \<open>The annotations as the specification words them\<close>

text \<open>
  The allele fraction of the specification: the indel-supporting reads divided by the
  reference, alt and indel reads together, and 0 when there are none; the counts are
  natural numbers.
\<close>

definition alleleFraction_spec :: "starling_indel_sample_report_info \<Rightarrow> real" where
  "alleleFraction_spec isri =
     (let total = unat (n_q30_ref_reads isri) + unat (n_q30_alt_reads isri)
                    + unat (n_q30_indel_reads isri)
      in if total = 0 then 0 else real (unat (n_q30_indel_reads isri)) / real total)"

text \<open>The strand odds ratio of the specification: the cross products are exact.\<close>

definition strandOddsRatio_spec :: "starling_indel_sample_report_info \<Rightarrow> double" where
  "strandOddsRatio_spec isri =
     (let num = unat (n_q30_ref_reads_fwd isri) * unat (n_q30_indel_reads_rev isri);
          denom = unat (n_q30_ref_reads_rev isri) * unat (n_q30_indel_reads_fwd isri)
      in if denom = 0 then PosInf else log10 (real num / real denom))"



subsection \<open>Example values\<close>

text \<open>Evidence with given counts: reference, alt and indel reads, then the strand counts
  (reference forward and reverse, indel forward and reverse).\<close>

definition evidence :: "u32 \<Rightarrow> u32 \<Rightarrow> u32 \<Rightarrow> u32 \<Rightarrow> u32 \<Rightarrow> u32 \<Rightarrow> u32
    \<Rightarrow> starling_indel_sample_report_info" where
  "evidence r a i rf rr ifw irv =
     \<lparr> n_q30_ref_reads = r, n_q30_indel_reads = i, n_q30_alt_reads = a, n_other_reads = 0,
       depth = r + a + i,
       n_q30_ref_reads_fwd = rf, n_q30_indel_reads_fwd = ifw,
       n_q30_ref_reads_rev = rr, n_q30_indel_reads_rev = irv,
       readpos_ranksum_u_stat = Finite 0, mean_mapq = Finite 60, mapq0_frac = Finite 0 \<rparr>"

text \<open>
  Rounding to the nearest value of a binary floating-point format with \<open>p\<close> significand
  bits and least exponent \<open>emin\<close>, ties to even (overflow left out). The conversion of the
  examples rounds the exact quotient to double precision and the result to single precision.
\<close>

definition round_half_even :: "real \<Rightarrow> int" where
  "round_half_even x =
     (let f = \<lfloor>x\<rfloor>; d = x - of_int f
      in if d < 1 / 2 then f else if 1 / 2 < d then f + 1 else if even f then f else f + 1)"

definition round_binary :: "nat \<Rightarrow> int \<Rightarrow> real \<Rightarrow> real" where
  "round_binary p emin x =
     (if x = 0 then 0
      else (let e = max \<lfloor>log 2 \<bar>x\<bar>\<rfloor> emin;
                ulp = 2 powi (e - int p + 1)
            in sgn x * of_int (round_half_even (\<bar>x\<bar> / ulp)) * ulp))"

definition ex_to_float :: "real \<Rightarrow> real" where
  "ex_to_float x = round_binary 24 (-126) (round_binary 53 (-1022) x)"

definition ex_externs :: externs where
  "ex_externs = \<lparr>fisher_exact_test_pval_2x2 = (\<lambda>a b c d. Finite 1),
                  error_prob_to_phred = (\<lambda>p. Finite 0),
                  to_float = ex_to_float\<rparr>"

definition ex_was :: "real \<Rightarrow> real \<Rightarrow> win_avg_set" where
  "ex_was used filt = \<lparr>ss_used_win = used, ss_filt_win = filt, ss_submap_win = 0\<rparr>"

definition ex_opt :: "real \<Rightarrow> int \<Rightarrow> strelka_options" where
  "ex_opt thr lb = \<lparr>bam_seq_name = ''chr1'',
      sfilter = \<lparr>indelMaxWindowFilteredBasecallFrac = thr, sindelQuality_LowerBound = lb\<rparr>\<rparr>"

definition ex_dopt :: "bool \<Rightarrow> real \<Rightarrow> strelka_deriv_options" where
  "ex_dopt b d = \<lparr>dsfilter = \<lparr>is_max_depth = b, max_depth = d\<rparr>\<rparr>"

definition ex_iri :: "bool \<Rightarrow> starling_indel_report_info" where
  "ex_iri ru = \<lparr>vcf_ref_seq = ''CA'', vcf_indel_seq = ''C'', is_repeat_unit = ru,
      repeat_unit = (if ru then ''A'' else []), ref_repeat_count = (if ru then 3 else 0),
      indel_repeat_count = (if ru then 2 else 0), ihpol = 3, it = DELETE\<rparr>"

text \<open>A candidate with a given normal genotype, NT-relative quality, repeat-unit flag and
  tier-1 depth of the normal sample.\<close>

definition ex_info :: "NTYPE \<Rightarrow> int \<Rightarrow> bool \<Rightarrow> u32 \<Rightarrow> SomaticIndelVcfInfo" where
  "ex_info nt q ru d =
     \<lparr>sindel = \<lparr>rs = \<lparr>ntype = nt, sindel_qphred = 50, sindel_from_ntype_qphred = q, max_gt = 1,
                       is_overlap = False\<rparr>,
                sindel_tier = 0, sindel_from_ntype_tier = 0\<rparr>,
      iri = ex_iri ru,
      nisri = ((evidence 10 2 4 5 5 2 2)\<lparr>depth := d\<rparr>, evidence 10 2 4 5 5 2 2),
      tisri = (evidence 10 2 4 5 5 2 2, evidence 10 2 4 5 5 2 2)\<rparr>"

text \<open>A writer with nothing cached and nothing written.\<close>

definition ex_writer :: SomaticIndelVcfWriter where
  "ex_writer = \<lparr>m_opt = ex_opt 0.3 30, m_dopt = ex_dopt False 0, m_osptr = init_stream,
      m_data = Map.empty\<rparr>"

section \<open>Properties\<close>

subsection \<open>What the formatter writes\<close>

lemmas stream_defs = chain_def put_def put_flt_def put_uns_def fixed_def setprecision_def
  StreamScoper_def StreamScoper_restore_def

lemma sample_column_eq:
  "sample_column X isri1 isri2 was =
     [TUns (unat (depth isri1)), TChar CHR '':'', TUns (unat (depth isri2)), TChar CHR '':'',
      TUns (unat (n_q30_ref_reads isri1 + n_q30_alt_reads isri1)), TChar CHR '','',
      TUns (unat (n_q30_ref_reads isri2 + n_q30_alt_reads isri2)), TChar CHR '':'',
      TUns (unat (n_q30_indel_reads isri1)), TChar CHR '','',
      TUns (unat (n_q30_indel_reads isri2)), TChar CHR '':'',
      TUns (unat (n_other_reads isri1)), TChar CHR '','',
      TUns (unat (n_other_reads isri2)),
      TChar CHR '':'', TFlt Fixed 2 (Finite (ss_used_win was + ss_filt_win was)),
      TChar CHR '':'', TFlt Fixed 2 (Finite (ss_filt_win was)),
      TChar CHR '':'', TFlt Fixed 2 (Finite (ss_submap_win was)),
      TChar CHR '':'', TFlt Fixed 2 (Finite (calculateIndelAF isri1)), TLit '','',
                       TFlt Fixed 2 (Finite (calculateIndelAF isri2)),
      TChar CHR '':'', TFlt Fixed 2 (calculateSOR isri1), TLit '','',
                       TFlt Fixed 2 (calculateSOR isri2),
      TChar CHR '':'', TFlt Fixed 2 (calculateFS X isri1), TLit '','',
                       TFlt Fixed 2 (calculateFS X isri2),
      TChar CHR '':'', TFlt Fixed 2 (readpos_ranksum_u_stat isri1), TLit '','',
                       TFlt Fixed 2 (readpos_ranksum_u_stat isri2),
      TChar CHR '':'', TFlt Fixed 2 (mean_mapq isri1), TLit '','',
                       TFlt Fixed 2 (mean_mapq isri2),
      TChar CHR '':'', TFlt Fixed 2 (mapq0_frac isri1), TLit '','',
                       TFlt Fixed 2 (mapq0_frac isri2)]"
  by (simp add: sample_column_def write_vcf_isri_tiers_def init_stream_def stream_defs Let_def)

text \<open>On any stream the call appends the sample column and leaves the format as it was.\<close>

lemma write_vcf_isri_tiers_eq:
  "write_vcf_isri_tiers X isri1 isri2 was os =
     os\<lparr>written := written os @ sample_column X isri1 isri2 was\<rparr>"
  unfolding sample_column_eq
  by (simp add: write_vcf_isri_tiers_def stream_defs Let_def)

lemma vcf_record_eq:
  "vcf_record X opt dopt pos siInfo wasNormal wasTumor =
     [TStr (bam_seq_name opt),
      TChar CHR 0x09, TInt (pos + 1),
      TChar CHR 0x09, TLit ''.'',
      TChar CHR 0x09, TStr (vcf_ref_seq (iri siInfo)),
      TChar CHR 0x09, TStr (vcf_indel_seq (iri siInfo)),
      TChar CHR 0x09, TLit ''.'',
      TChar CHR 0x09, TFilters (site_filters X opt dopt siInfo wasNormal wasTumor),
      TChar CHR 0x09]
      @ info_block siInfo
      @ [TChar CHR 0x09, TLit ''DP:DP2:TAR:TIR:TOR:DP50:FDP50:SUBDP50:AF:SOR:FS:RR:MQ:MQ0'',
         TChar CHR 0x09]
      @ sample_column X (fst (nisri siInfo)) (snd (nisri siInfo)) wasNormal
      @ [TChar CHR 0x09]
      @ sample_column X (fst (tisri siInfo)) (snd (tisri siInfo)) wasTumor
      @ [TChar CHR 0x0A]"
  by (simp add: vcf_record_def writeSomaticIndelVcfGrid_def write_vcf_isri_tiers_eq info_block_def
      repeat_unit_fields_def init_stream_def chain_def put_def put_uns_def Let_def)

lemma writeSomaticIndelVcfGrid_eq:
  "writeSomaticIndelVcfGrid X opt dopt pos siInfo wasNormal wasTumor os =
     os\<lparr>written := written os @ vcf_record X opt dopt pos siInfo wasNormal wasTumor\<rparr>"
  unfolding vcf_record_eq
  by (simp add: writeSomaticIndelVcfGrid_def write_vcf_isri_tiers_eq info_block_def
      repeat_unit_fields_def chain_def put_def put_uns_def Let_def)

lemma vcf_record_info_block:
  "\<exists>A B. vcf_record X opt dopt pos siInfo wasNormal wasTumor = A @ info_block siInfo @ B"
  unfolding vcf_record_eq by (intro exI) (rule refl)

lemma vcf_record_filters:
  "vcf_record X opt dopt pos siInfo wasNormal wasTumor ! 12
     = TFilters (site_filters X opt dopt siInfo wasNormal wasTumor)"
  by (simp add: vcf_record_eq)

lemma TLit_in_sample_column:
  "TLit s \<in> set (sample_column X isri1 isri2 was) \<longleftrightarrow> s = '',''"
  by (auto simp add: sample_column_eq)

lemma TLit_in_info_block:
  "TLit s \<in> set (info_block siInfo) \<longleftrightarrow>
     s \<in> {''SOMATIC'', '';QSI='', '';TQSI='', '';NT='', '';QSI_NT='', '';TQSI_NT='', '';SGT='',
           '';IHP=''}
     \<or> (is_repeat_unit (iri siInfo) \<and> s \<in> {'';RU='', '';RC='', '';IC=''})
     \<or> ((it (iri siInfo) = BP_LEFT \<or> it (iri siInfo) = BP_RIGHT) \<and> s = '';SVTYPE=BND'')
     \<or> (is_overlap (rs (sindel siInfo)) \<and> s = '';OVERLAP'')"
  by (auto simp add: info_block_def repeat_unit_fields_def)

lemma TLit_in_vcf_record:
  "TLit s \<in> set (vcf_record X opt dopt pos siInfo wasNormal wasTumor) \<longleftrightarrow>
     TLit s \<in> set (info_block siInfo)
     \<or> s \<in> {''.'', ''DP:DP2:TAR:TIR:TOR:DP50:FDP50:SUBDP50:AF:SOR:FS:RR:MQ:MQ0'', '',''}"
  by (auto simp add: vcf_record_eq TLit_in_sample_column)

lemma count_newline_sample_column:
  "count_list (sample_column X isri1 isri2 was) (TChar CHR 0x0A) = 0"
  by (simp add: sample_column_eq)

lemma count_newline_vcf_record:
  "count_list (vcf_record X opt dopt pos siInfo wasNormal wasTumor) (TChar CHR 0x0A) = 1"
  by (simp add: vcf_record_eq info_block_def repeat_unit_fields_def count_newline_sample_column)

lemma count_newline_records:
  "count_list (concat (map (\<lambda>c. vcf_record X opt dopt pos c wasNormal wasTumor) cs))
     (TChar CHR 0x0A) = length cs"
  by (induction cs) (simp_all add: count_newline_vcf_record)

lemma fold_writeSomaticIndelVcfGrid:
  "fold (\<lambda>indelInfo os. writeSomaticIndelVcfGrid X opt dopt pos indelInfo wasNormal wasTumor os) cs os
     = os\<lparr>written := written os
             @ concat (map (\<lambda>c. vcf_record X opt dopt pos c wasNormal wasTumor) cs)\<rparr>"
  by (induction cs arbitrary: os) (simp_all add: writeSomaticIndelVcfGrid_eq)

subsection \<open>The buffer under a sequence of calls\<close>

lemma cacheIndels_Nil: "cacheIndels [] w = w"
  by (simp add: cacheIndels_def)

lemma cacheIndels_Cons:
  "cacheIndels (c # calls) w = cacheIndels calls (cacheIndel (fst c) (snd c) w)"
  by (simp add: cacheIndels_def)

lemma cacheIndels_fields:
  "m_opt (cacheIndels calls w) = m_opt w \<and> m_dopt (cacheIndels calls w) = m_dopt w
   \<and> m_osptr (cacheIndels calls w) = m_osptr w"
  by (induction calls arbitrary: w) (simp_all add: cacheIndels_Nil cacheIndels_Cons cacheIndel_def)

lemma data_at_cacheIndel:
  "data_at (cacheIndel p c w) pos = (if p = pos then data_at w pos @ [c] else data_at w pos)"
  by (simp add: data_at_def cacheIndel_def)

lemma testPos_cacheIndel:
  "testPos (cacheIndel p c w) pos \<longleftrightarrow> p = pos \<or> testPos w pos"
  by (simp add: testPos_def cacheIndel_def)

lemma data_at_cacheIndels:
  "data_at (cacheIndels calls w) pos = data_at w pos @ cachedAt pos calls"
  by (induction calls arbitrary: w)
     (simp_all add: cacheIndels_Nil cacheIndels_Cons cachedAt_def data_at_cacheIndel)

lemma testPos_cacheIndels:
  "testPos (cacheIndels calls w) pos \<longleftrightarrow> testPos w pos \<or> cachedAt pos calls \<noteq> []"
  by (induction calls arbitrary: w)
     (auto simp add: cacheIndels_Nil cacheIndels_Cons cachedAt_def testPos_cacheIndel)

text \<open>
  C1. From a writer with nothing pending at a position, after any sequence of calls of
  \<^verbatim>\<open>cacheIndel\<close> of which N, at least one, are at that position (several at one position
  are no error: \<open>cacheIndel\<close> has no failing result), \<^verbatim>\<open>addIndelWindowData\<close> returns
  normally, has appended to the stream the records of exactly these N candidates in the
  order they were cached, with N ends of line; afterwards the map has no entry for the
  position and \<open>testPos\<close> is false.
\<close>

theorem flush_emits_cached_records:
  assumes "\<not> testPos w pos"
      and "cachedAt pos calls \<noteq> []"
  shows "\<exists>w'. addIndelWindowData X pos wasNormal wasTumor (cacheIndels calls w) = Inr w'
           \<and> written (m_osptr w') = written (m_osptr w)
                @ concat (map (\<lambda>c. vcf_record X (m_opt w) (m_dopt w) pos c wasNormal wasTumor)
                            (cachedAt pos calls))
           \<and> count_list (concat (map (\<lambda>c. vcf_record X (m_opt w) (m_dopt w) pos c wasNormal wasTumor)
                            (cachedAt pos calls))) (TChar CHR 0x0A) = length (cachedAt pos calls)
           \<and> m_data w' pos = None
           \<and> \<not> testPos w' pos"
proof -
  have pending: "testPos (cacheIndels calls w) pos"
    using assms(2) by (simp add: testPos_cacheIndels)
  have "data_at w pos = []"
    using assms(1) by (simp add: testPos_def data_at_def)
  then have cs: "data_at (cacheIndels calls w) pos = cachedAt pos calls"
    by (simp add: data_at_cacheIndels)
  show ?thesis
    using pending
    by (simp add: addIndelWindowData_def cs cacheIndels_fields fold_writeSomaticIndelVcfGrid
        count_newline_records testPos_def)
qed

theorem flush_emits_cached_records_witness:
  "\<not> testPos ex_writer 5
   \<and> cachedAt 5 [(5, ex_info REF 40 False 20), (3, ex_info REF 10 False 20),
                  (5, ex_info HET 40 True 20)]
       = [ex_info REF 40 False 20, ex_info HET 40 True 20]
   \<and> (\<exists>w'. addIndelWindowData ex_externs 5 (ex_was 30 1) (ex_was 30 1)
              (cacheIndels [(5, ex_info REF 40 False 20), (3, ex_info REF 10 False 20),
                            (5, ex_info HET 40 True 20)] ex_writer) = Inr w'
          \<and> written (m_osptr w') =
               vcf_record ex_externs (ex_opt 0.3 30) (ex_dopt False 0) 5
                 (ex_info REF 40 False 20) (ex_was 30 1) (ex_was 30 1)
               @ vcf_record ex_externs (ex_opt 0.3 30) (ex_dopt False 0) 5
                   (ex_info HET 40 True 20) (ex_was 30 1) (ex_was 30 1)
          \<and> m_data w' 5 = None
          \<and> \<not> testPos w' 5)"
proof -
  have h1: "\<not> testPos ex_writer 5" by (simp add: testPos_def ex_writer_def)
  have c: "cachedAt 5 [(5, ex_info REF 40 False 20), (3, ex_info REF 10 False 20),
                       (5, ex_info HET 40 True 20)]
       = [ex_info REF 40 False 20, ex_info HET 40 True 20]"
    by (simp add: cachedAt_def)
  have h2: "cachedAt 5 [(5, ex_info REF 40 False 20), (3, ex_info REF 10 False 20),
                        (5, ex_info HET 40 True 20)] \<noteq> []"
    by (simp only: c) simp
  have w: "m_opt ex_writer = ex_opt 0.3 30" "m_dopt ex_writer = ex_dopt False 0"
          "written (m_osptr ex_writer) = []"
    by (simp_all add: ex_writer_def init_stream_def)
  show ?thesis
    using flush_emits_cached_records [OF h1 h2, of ex_externs "ex_was 30 1" "ex_was 30 1"]
    unfolding c w by (auto simp add: h1)
qed

text \<open>
  C5. \<^verbatim>\<open>addIndelWindowData\<close> at a position with nothing pending stops at its assertion: it
  returns no writer, so it neither writes nothing and returns nor removes anything.
\<close>

theorem flush_without_pending_fails:
  assumes "\<not> testPos w pos"
  shows "addIndelWindowData X pos wasNormal wasTumor w = Inl AssertionFailure"
  using assms by (simp add: addIndelWindowData_def)

theorem flush_without_pending_fails_witness:
  "\<not> testPos ex_writer 7
   \<and> addIndelWindowData ex_externs 7 (ex_was 30 1) (ex_was 30 1) ex_writer = Inl AssertionFailure"
proof -
  have h: "\<not> testPos ex_writer 7" by (simp add: testPos_def ex_writer_def)
  show ?thesis
    using h flush_without_pending_fails [OF h, of ex_externs "ex_was 30 1" "ex_was 30 1"] by simp
qed

text \<open>
  C10. \<^verbatim>\<open>cacheIndel\<close> at a position appends the candidate at the end of the list of that
  position and leaves the entry of every other position as it was; \<^verbatim>\<open>addIndelWindowData\<close>
  at a position with an entry removes that entry and leaves the entry of every other position
  as it was.
\<close>

theorem cache_and_flush_frame:
  assumes "q \<noteq> pos"
  shows "m_data (cacheIndel pos siInfo w) pos = Some (data_at w pos @ [siInfo])
       \<and> m_data (cacheIndel pos siInfo w) q = m_data w q
       \<and> (testPos w pos \<longrightarrow>
            (\<exists>w'. addIndelWindowData X pos wasNormal wasTumor w = Inr w'
                  \<and> m_data w' pos = None \<and> m_data w' q = m_data w q))"
  using assms by (simp add: cacheIndel_def addIndelWindowData_def)

theorem cache_and_flush_frame_witness:
  "(3::int) \<noteq> 5
   \<and> m_data (cacheIndel 5 (ex_info HET 40 True 20)
        (cacheIndel 5 (ex_info REF 40 False 20) (cacheIndel 3 (ex_info REF 10 False 20) ex_writer))) 5
       = Some [ex_info REF 40 False 20, ex_info HET 40 True 20]
   \<and> m_data (cacheIndel 5 (ex_info HET 40 True 20)
        (cacheIndel 5 (ex_info REF 40 False 20) (cacheIndel 3 (ex_info REF 10 False 20) ex_writer))) 3
       = Some [ex_info REF 10 False 20]
   \<and> (\<exists>w'. addIndelWindowData ex_externs 5 (ex_was 30 1) (ex_was 30 1)
              (cacheIndel 5 (ex_info REF 40 False 20)
                 (cacheIndel 3 (ex_info REF 10 False 20) ex_writer)) = Inr w'
            \<and> m_data w' 5 = None \<and> m_data w' 3 = Some [ex_info REF 10 False 20])"
  using cache_and_flush_frame [of 3 5 "ex_info HET 40 True 20"
          "cacheIndel 5 (ex_info REF 40 False 20) (cacheIndel 3 (ex_info REF 10 False 20) ex_writer)"
          ex_externs "ex_was 30 1" "ex_was 30 1"]
  by (simp add: cacheIndel_def data_at_def testPos_def ex_writer_def)

subsection \<open>Unsigned counts and their conversions\<close>

lemma sint_of_small:
  fixes w :: u32
  assumes "unat w < 2 ^ 31"
  shows "sint w = int (unat w)"
proof -
  have "int (unat w) < int (2 ^ 31)" using assms by (simp only: of_nat_less_iff)
  then have "uint w < 2 ^ 31" by simp
  moreover have "- (2 ^ 31) \<le> uint w"
  proof -
    have "- (2 ^ 31) \<le> (0::int)" by simp
    also have "0 \<le> uint w" by (rule uint_ge_0)
    finally show ?thesis .
  qed
  ultimately have "signed_take_bit 31 (uint w) = uint w"
    by (rule signed_take_bit_int_eq_self [OF _ _, rotated])
  then show ?thesis by (simp add: sint_uint)
qed

lemma unat_sum3:
  fixes r a i :: u32
  assumes "unat r + unat a + unat i < 2 ^ 31"
  shows "unat (r + a + i) = unat r + unat a + unat i"
proof -
  have "unat r + unat a + unat i < 2 ^ 32" using assms by simp
  then show ?thesis by (simp add: unat_word_ariths)
qed

lemma unat_mult_small:
  fixes a b :: u32
  assumes "unat a * unat b < 2 ^ 32"
  shows "unat (a * b) = unat a * unat b"
  using assms by (simp add: unat_word_ariths)

lemma safeFrac_nat:
  "safeFrac (int i) (int t) = (if t = 0 then 0 else real i / real t)"
  by (simp add: safeFrac_def)

subsection \<open>Allele fraction\<close>

text \<open>
  C8, as amended. For every evidence record whose reference, alt and indel counts together
  are below \<open>2 ^ 31\<close> (the range of the \<^verbatim>\<open>int\<close> parameters of \<^verbatim>\<open>safeFrac\<close>),
  \<^verbatim>\<open>calculateIndelAF\<close> returns 0 when the total is zero and the indel count divided by the
  total otherwise.
\<close>

theorem calculateIndelAF_in_int_range:
  assumes "unat (n_q30_ref_reads isri) + unat (n_q30_alt_reads isri)
             + unat (n_q30_indel_reads isri) < 2 ^ 31"
  shows "calculateIndelAF isri = alleleFraction_spec isri"
proof -
  let ?r = "n_q30_ref_reads isri" and ?a = "n_q30_alt_reads isri" and ?i = "n_q30_indel_reads isri"
  have sum: "unat (?r + ?a + ?i) = unat ?r + unat ?a + unat ?i"
    using assms by (rule unat_sum3)
  have "unat ?i < 2 ^ 31" using assms by linarith
  then have num: "sint ?i = int (unat ?i)" by (rule sint_of_small)
  have "unat (?r + ?a + ?i) < 2 ^ 31" using assms by (simp only: sum)
  then have "sint (?r + ?a + ?i) = int (unat (?r + ?a + ?i))" by (rule sint_of_small)
  then have den: "sint (?r + ?a + ?i) = int (unat ?r + unat ?a + unat ?i)"
    by (simp only: sum)
  have "calculateIndelAF isri = safeFrac (int (unat ?i)) (int (unat ?r + unat ?a + unat ?i))"
    by (simp only: calculateIndelAF_def num den)
  also have "\<dots> = alleleFraction_spec isri"
    by (simp only: safeFrac_nat alleleFraction_spec_def Let_def)
  finally show ?thesis .
qed

theorem calculateIndelAF_in_int_range_witness:
  "unat (10::u32) + unat (2::u32) + unat (4::u32) < 2 ^ 31
   \<and> calculateIndelAF (evidence 10 2 4 5 5 2 2) = 1 / 4
   \<and> calculateIndelAF (evidence 0 0 0 0 0 0 0) = 0"
  using calculateIndelAF_in_int_range [of "evidence 10 2 4 5 5 2 2"]
        calculateIndelAF_in_int_range [of "evidence 0 0 0 0 0 0 0"]
  by (simp add: evidence_def alleleFraction_spec_def)

text \<open>
  With \<open>2 ^ 31\<close> indel reads and no others the total is not zero and the fraction of the
  specification is 1, but both arguments of \<^verbatim>\<open>safeFrac\<close> are negative as \<^verbatim>\<open>int\<close> and the
  function returns 0.
\<close>

theorem calculateIndelAF_counterexample:
  "calculateIndelAF (evidence 0 0 2147483648 0 0 0 0) = 0
   \<and> alleleFraction_spec (evidence 0 0 2147483648 0 0 0 0) = 1"
  by (simp add: calculateIndelAF_def alleleFraction_spec_def safeFrac_def evidence_def)

subsection \<open>Strand odds ratio\<close>

text \<open>Where neither cross product reaches \<open>2 ^ 32\<close> the function is the one of the
  specification.\<close>

lemma calculateSOR_no_overflow:
  assumes "unat (n_q30_ref_reads_fwd isri) * unat (n_q30_indel_reads_rev isri) < 2 ^ 32"
      and "unat (n_q30_ref_reads_rev isri) * unat (n_q30_indel_reads_fwd isri) < 2 ^ 32"
  shows "calculateSOR isri = strandOddsRatio_spec isri"
proof -
  let ?num = "n_q30_ref_reads_fwd isri * n_q30_indel_reads_rev isri"
  let ?denom = "n_q30_ref_reads_rev isri * n_q30_indel_reads_fwd isri"
  have n: "unat ?num = unat (n_q30_ref_reads_fwd isri) * unat (n_q30_indel_reads_rev isri)"
    using assms(1) by (rule unat_mult_small)
  have d: "unat ?denom = unat (n_q30_ref_reads_rev isri) * unat (n_q30_indel_reads_fwd isri)"
    using assms(2) by (rule unat_mult_small)
  have z: "(?denom = 0) \<longleftrightarrow> unat ?denom = 0"
    by (simp add: unat_eq_0)
  show ?thesis
    unfolding calculateSOR_def strandOddsRatio_spec_def Let_def z n d ..
qed

text \<open>
  C2. With 65536 reference reads on the reverse strand and 65536 indel reads on the forward
  strand the exact cross product is \<open>2 ^ 32\<close>, not zero, and the specification gives
  \<open>log10 (1 / 2 ^ 32)\<close>; the \<^verbatim>\<open>unsigned int\<close> product of \<^verbatim>\<open>calculateSOR\<close> wraps to zero and
  the function returns positive infinity.
\<close>

theorem calculateSOR_overflow:
  "calculateSOR (evidence 0 0 0 1 65536 65536 1) = PosInf
   \<and> unat (n_q30_ref_reads_rev (evidence 0 0 0 1 65536 65536 1))
       * unat (n_q30_indel_reads_fwd (evidence 0 0 0 1 65536 65536 1)) = 4294967296
   \<and> strandOddsRatio_spec (evidence 0 0 0 1 65536 65536 1) = log10 (1 / 4294967296)
   \<and> log10 (1 / 4294967296) \<noteq> PosInf"
  by (simp add: calculateSOR_def strandOddsRatio_spec_def evidence_def log10_def)

subsection \<open>The example conversion to single precision\<close>

















subsection \<open>Site filters\<close>

text \<open>
  C6. \<open>HighDepth\<close> is among the site filters exactly when a maximum depth is configured and
  the tier-1 depth of the normal sample is strictly above it.
\<close>

theorem HighDepth_in_site_filters:
  "HighDepth \<in> site_filters X opt dopt siInfo wasNormal wasTumor \<longleftrightarrow>
     is_max_depth (dsfilter dopt) \<and>
     max_depth (dsfilter dopt) < real (unat (depth (fst (nisri siInfo))))"
  by (simp add: site_filters_def set_filter_def Let_def)

theorem HighDepth_in_site_filters_witness:
  "HighDepth \<in> site_filters ex_externs (ex_opt 0.3 30) (ex_dopt True 100) (ex_info REF 40 False 150)
                  (ex_was 30 1) (ex_was 30 1)
   \<and> HighDepth \<notin> site_filters ex_externs (ex_opt 0.3 30) (ex_dopt True 100) (ex_info REF 40 False 100)
                  (ex_was 30 1) (ex_was 30 1)
   \<and> HighDepth \<notin> site_filters ex_externs (ex_opt 0.3 30) (ex_dopt False 100) (ex_info REF 40 False 150)
                  (ex_was 30 1) (ex_was 30 1)"
  using HighDepth_in_site_filters [of ex_externs "ex_opt 0.3 30" "ex_dopt True 100"
          "ex_info REF 40 False 150" "ex_was 30 1" "ex_was 30 1"]
        HighDepth_in_site_filters [of ex_externs "ex_opt 0.3 30" "ex_dopt True 100"
          "ex_info REF 40 False 100" "ex_was 30 1" "ex_was 30 1"]
        HighDepth_in_site_filters [of ex_externs "ex_opt 0.3 30" "ex_dopt False 100"
          "ex_info REF 40 False 150" "ex_was 30 1" "ex_was 30 1"]
  by (simp add: ex_dopt_def ex_info_def)





text \<open>
  C7. For a candidate whose normal genotype is not \<open>REF\<close>, and also for one whose NT-relative
  quality is below the configured lower bound, \<open>QSI_ref\<close> is among the site filters, whatever
  the other values are, and the FILTER column of the record written is that set of filters.
\<close>

theorem QSI_ref_when_not_REF_or_low_quality:
  assumes "ntype (rs (sindel siInfo)) \<noteq> REF \<or>
           sindel_from_ntype_qphred (rs (sindel siInfo)) < sindelQuality_LowerBound (sfilter opt)"
  shows "QSI_ref \<in> site_filters X opt dopt siInfo wasNormal wasTumor
       \<and> vcf_record X opt dopt pos siInfo wasNormal wasTumor ! 12
           = TFilters (site_filters X opt dopt siInfo wasNormal wasTumor)"
proof -
  have "QSI_ref \<in> site_filters X opt dopt siInfo wasNormal wasTumor"
    using assms by (auto simp add: site_filters_def set_filter_def Let_def)
  then show ?thesis
    by (simp add: vcf_record_filters)
qed

theorem QSI_ref_when_not_REF_or_low_quality_witness:
  "ntype (rs (sindel (ex_info HET 40 False 20))) \<noteq> REF
   \<and> \<not> sindel_from_ntype_qphred (rs (sindel (ex_info HET 40 False 20)))
         < sindelQuality_LowerBound (sfilter (ex_opt 0.3 30))
   \<and> QSI_ref \<in> site_filters ex_externs (ex_opt 0.3 30) (ex_dopt False 0) (ex_info HET 40 False 20)
                  (ex_was 30 1) (ex_was 30 1)
   \<and> vcf_record ex_externs (ex_opt 0.3 30) (ex_dopt False 0) 5 (ex_info HET 40 False 20)
         (ex_was 30 1) (ex_was 30 1) ! 12
       = TFilters (site_filters ex_externs (ex_opt 0.3 30) (ex_dopt False 0) (ex_info HET 40 False 20)
                     (ex_was 30 1) (ex_was 30 1))"
proof -
  have h: "ntype (rs (sindel (ex_info HET 40 False 20))) \<noteq> REF"
    by (simp add: ex_info_def)
  have q: "\<not> sindel_from_ntype_qphred (rs (sindel (ex_info HET 40 False 20)))
         < sindelQuality_LowerBound (sfilter (ex_opt 0.3 30))"
    by (simp add: ex_info_def ex_opt_def)
  show ?thesis
    using h q QSI_ref_when_not_REF_or_low_quality [OF disjI1 [OF h],
        where opt = "ex_opt 0.3 30" and X = ex_externs and dopt = "ex_dopt False 0"
          and wasNormal = "ex_was 30 1" and wasTumor = "ex_was 30 1" and pos = 5]
    by simp
qed

subsection \<open>Floating-point format of a sample column\<close>

text \<open>
  C4, as amended. In each sample column every floating-point field is written with the fixed
  format and precision 2: the three window averages and also the allele fractions, the strand
  odds ratios, the strand-bias scores, the rank-sum statistics, the mean mapping qualities
  and the fractions of mapping quality zero.
\<close>

theorem sample_column_floats_fixed:
  "written (write_vcf_isri_tiers X isri1 isri2 was os)
     = written os @ sample_column X isri1 isri2 was
   \<and> filter is_flt (sample_column X isri1 isri2 was) =
       map (TFlt Fixed 2)
         [Finite (ss_used_win was + ss_filt_win was), Finite (ss_filt_win was),
          Finite (ss_submap_win was),
          Finite (calculateIndelAF isri1), Finite (calculateIndelAF isri2),
          calculateSOR isri1, calculateSOR isri2,
          calculateFS X isri1, calculateFS X isri2,
          readpos_ranksum_u_stat isri1, readpos_ranksum_u_stat isri2,
          mean_mapq isri1, mean_mapq isri2,
          mapq0_frac isri1, mapq0_frac isri2]"
  by (simp add: write_vcf_isri_tiers_eq) (simp add: sample_column_eq)

text \<open>
  On a stream with the default format, the allele fraction of tier 1 (item 22 of the column)
  and the mean mapping quality of tier 1 (item 38) are written with the fixed format and
  precision 2, not with the default format of the stream.
\<close>

theorem sample_column_counterexample:
  "floatfield init_stream = DefaultFloat \<and> precision init_stream = 6
   \<and> calculateIndelAF (evidence 10 2 4 5 5 2 2) = 1 / 4
   \<and> written (write_vcf_isri_tiers ex_externs (evidence 10 2 4 5 5 2 2) (evidence 10 2 4 5 5 2 2)
         (ex_was 30 1) init_stream) ! 22 = TFlt Fixed 2 (Finite (1 / 4))
   \<and> mean_mapq (evidence 10 2 4 5 5 2 2) = Finite 60
   \<and> written (write_vcf_isri_tiers ex_externs (evidence 10 2 4 5 5 2 2) (evidence 10 2 4 5 5 2 2)
         (ex_was 30 1) init_stream) ! 38 = TFlt Fixed 2 (Finite 60)"
proof -
  have af: "calculateIndelAF (evidence 10 2 4 5 5 2 2) = 1 / 4"
    by (simp add: calculateIndelAF_def safeFrac_def evidence_def)
  have mq: "mean_mapq (evidence 10 2 4 5 5 2 2) = Finite 60"
    by (simp add: evidence_def)
  have col: "written (write_vcf_isri_tiers ex_externs (evidence 10 2 4 5 5 2 2)
                 (evidence 10 2 4 5 5 2 2) (ex_was 30 1) init_stream)
      = sample_column ex_externs (evidence 10 2 4 5 5 2 2) (evidence 10 2 4 5 5 2 2) (ex_was 30 1)"
    by (simp only: sample_column_def)
  show ?thesis
    unfolding col sample_column_eq af mq
    by (simp add: init_stream_def)
qed

subsection \<open>Repeat-unit fields\<close>

lemma repeat_unit_fields_sublist:
  assumes "is_repeat_unit (iri siInfo)"
  shows "sublist (repeat_unit_fields (iri siInfo))
           (vcf_record X opt dopt pos siInfo wasNormal wasTumor)"
proof -
  have "sublist (repeat_unit_fields (iri siInfo)) (info_block siInfo)"
    unfolding info_block_def using assms
    by (simp only: if_True) (rule sublist_appendI)
  then obtain ps ss where ib: "info_block siInfo = ps @ repeat_unit_fields (iri siInfo) @ ss"
    unfolding sublist_def by blast
  obtain A B where "vcf_record X opt dopt pos siInfo wasNormal wasTumor = A @ info_block siInfo @ B"
    using vcf_record_info_block by blast
  then have "vcf_record X opt dopt pos siInfo wasNormal wasTumor
      = (A @ ps) @ repeat_unit_fields (iri siInfo) @ (ss @ B)"
    by (simp add: ib)
  then show ?thesis unfolding sublist_def by blast
qed

text \<open>
  C9. The record written contains the fields \<^verbatim>\<open>;RU=\<close>, \<^verbatim>\<open>;RC=\<close> and \<^verbatim>\<open>;IC=\<close> with their
  values, one after the other, exactly when \<open>is_repeat_unit\<close> holds of the descriptor;
  otherwise none of the three keys is written at all.
\<close>

theorem repeat_unit_fields_iff:
  "(sublist (repeat_unit_fields (iri siInfo)) (vcf_record X opt dopt pos siInfo wasNormal wasTumor)
      \<longleftrightarrow> is_repeat_unit (iri siInfo))
   \<and> (TLit '';RU='' \<in> set (vcf_record X opt dopt pos siInfo wasNormal wasTumor)
      \<longleftrightarrow> is_repeat_unit (iri siInfo))
   \<and> (TLit '';RC='' \<in> set (vcf_record X opt dopt pos siInfo wasNormal wasTumor)
      \<longleftrightarrow> is_repeat_unit (iri siInfo))
   \<and> (TLit '';IC='' \<in> set (vcf_record X opt dopt pos siInfo wasNormal wasTumor)
      \<longleftrightarrow> is_repeat_unit (iri siInfo))"
proof -
  let ?r = "vcf_record X opt dopt pos siInfo wasNormal wasTumor"
  have ru: "TLit '';RU='' \<in> set ?r \<longleftrightarrow> is_repeat_unit (iri siInfo)"
    by (simp add: TLit_in_vcf_record TLit_in_info_block)
  have rc: "TLit '';RC='' \<in> set ?r \<longleftrightarrow> is_repeat_unit (iri siInfo)"
    by (simp add: TLit_in_vcf_record TLit_in_info_block)
  have ic: "TLit '';IC='' \<in> set ?r \<longleftrightarrow> is_repeat_unit (iri siInfo)"
    by (simp add: TLit_in_vcf_record TLit_in_info_block)
  have "is_repeat_unit (iri siInfo)" if "sublist (repeat_unit_fields (iri siInfo)) ?r"
  proof -
    have "set (repeat_unit_fields (iri siInfo)) \<subseteq> set ?r"
      using that by (rule set_mono_sublist)
    then have "TLit '';RU='' \<in> set ?r"
      by (simp add: repeat_unit_fields_def)
    then show ?thesis by (simp only: ru)
  qed
  then have sub: "sublist (repeat_unit_fields (iri siInfo)) ?r \<longleftrightarrow> is_repeat_unit (iri siInfo)"
    using repeat_unit_fields_sublist by blast
  show ?thesis using sub ru rc ic by (intro conjI)
qed

theorem repeat_unit_fields_iff_witness:
  "is_repeat_unit (iri (ex_info REF 40 True 20))
   \<and> repeat_unit_fields (iri (ex_info REF 40 True 20))
       = [TLit '';RU='', TStr ''A'', TLit '';RC='', TUns 3, TLit '';IC='', TUns 2]
   \<and> sublist (repeat_unit_fields (iri (ex_info REF 40 True 20)))
       (vcf_record ex_externs (ex_opt 0.3 30) (ex_dopt False 0) 5 (ex_info REF 40 True 20)
          (ex_was 30 1) (ex_was 30 1))
   \<and> \<not> is_repeat_unit (iri (ex_info REF 40 False 20))
   \<and> TLit '';RU='' \<notin> set (vcf_record ex_externs (ex_opt 0.3 30) (ex_dopt False 0) 5
          (ex_info REF 40 False 20) (ex_was 30 1) (ex_was 30 1))
   \<and> TLit '';RC='' \<notin> set (vcf_record ex_externs (ex_opt 0.3 30) (ex_dopt False 0) 5
          (ex_info REF 40 False 20) (ex_was 30 1) (ex_was 30 1))
   \<and> TLit '';IC='' \<notin> set (vcf_record ex_externs (ex_opt 0.3 30) (ex_dopt False 0) 5
          (ex_info REF 40 False 20) (ex_was 30 1) (ex_was 30 1))"
proof -
  have y: "is_repeat_unit (iri (ex_info REF 40 True 20))"
    by (simp add: ex_info_def ex_iri_def)
  have n: "\<not> is_repeat_unit (iri (ex_info REF 40 False 20))"
    by (simp add: ex_info_def ex_iri_def)
  have f: "repeat_unit_fields (iri (ex_info REF 40 True 20))
       = [TLit '';RU='', TStr ''A'', TLit '';RC='', TUns 3, TLit '';IC='', TUns 2]"
    by (simp add: repeat_unit_fields_def ex_info_def ex_iri_def)
  show ?thesis
    using y n f
      repeat_unit_fields_iff [of "ex_info REF 40 True 20" ex_externs "ex_opt 0.3 30"
        "ex_dopt False 0" 5 "ex_was 30 1" "ex_was 30 1"]
      repeat_unit_fields_iff [of "ex_info REF 40 False 20" ex_externs "ex_opt 0.3 30"
        "ex_dopt False 0" 5 "ex_was 30 1" "ex_was 30 1"]
    by simp
qed

end
